theory Spec2Isabelle
  imports Main
begin

section \<open>Python values and errors\<close>

text \<open>
  Values whose type Python fixes only at run time (marker keyword arguments, the JSON
  fields read from a response, the server identifiers kept in the context) are values
  of \<open>pyval\<close>; \<open>PNone\<close> is Python's \<open>None\<close> and JSON's \<open>null\<close>.
\<close>

datatype pyval = PNone | PBool bool | PInt int | PStr string

text \<open>Python's truth value of an object, as \<open>if x:\<close> tests it.\<close>

fun truthy :: "pyval \<Rightarrow> bool" where
  "truthy PNone = False"
| "truthy (PBool b) = b"
| "truthy (PInt n) = (n \<noteq> 0)"
| "truthy (PStr s) = (s \<noteq> [])"

text \<open>\<open>d.get(k, default)\<close> on a dict.\<close>

definition dict_get :: "(string \<rightharpoonup> pyval) \<Rightarrow> string \<Rightarrow> pyval \<Rightarrow> pyval" where
  "dict_get d k dflt = (case d k of None \<Rightarrow> dflt | Some v \<Rightarrow> v)"

text \<open>
  The exceptions that the modelled code lets escape: \<open>IndexError\<close> from a list
  subscript, \<open>RequestError\<close> for \<open>httpx.RequestError\<close> (connection, timeout, DNS and
  TLS failures), \<open>JSONDecodeError\<close> from \<open>response.json()\<close> on a body that is not JSON,
  \<open>KeyError\<close> and \<open>TypeError\<close> from a subscript of the decoded body, \<open>OSError\<close> from
  \<open>open\<close>, \<open>NotImplementedError\<close> from \<open>send_artifact\<close>.
\<close>

datatype error =
  IndexError | RequestError | JSONDecodeError | KeyError | TypeError | OSError | NotImplementedError

text \<open>\<open>xs[i]\<close> for a non-negative index.\<close>

definition subscript :: "'a list \<Rightarrow> nat \<Rightarrow> error + 'a" where
  "subscript xs i = (if i < length xs then Inr (xs ! i) else Inl IndexError)"

text \<open>
  \<open>s.split(sep)\<close> for a non-empty separator: the occurrences of \<open>sep\<close> are found from
  the left, without overlap; \<open>acc\<close> is the segment read so far.
\<close>

fun py_split :: "string \<Rightarrow> string \<Rightarrow> string \<Rightarrow> string list" where
  "py_split sep acc [] = [acc]"
| "py_split sep acc (c # cs) =
     (if sep \<noteq> [] \<and> take (length sep) (c # cs) = sep
      then acc # py_split sep [] (drop (length sep) (c # cs))
      else py_split sep (acc @ [c]) cs)"

definition split :: "string \<Rightarrow> string \<Rightarrow> string list" where
  "split s sep = py_split sep [] s"

section \<open>api/models.py\<close>

datatype TestStatus = UNKNOWN | IN_PROGRESS | PASSED | FAILED | SKIPPED | ABORTED | QUEUED

fun status_value :: "TestStatus \<Rightarrow> string" where
  "status_value UNKNOWN = ''UNKNOWN''"
| "status_value IN_PROGRESS = ''IN_PROGRESS''"
| "status_value PASSED = ''PASSED''"
| "status_value FAILED = ''FAILED''"
| "status_value SKIPPED = ''SKIPPED''"
| "status_value ABORTED = ''ABORTED''"
| "status_value QUEUED = ''QUEUED''"

datatype NotificationsType = EMAIL_RECIPIENTS | MS_TEAMS_CHANNELS | SLACK_CHANNELS

fun notification_value :: "NotificationsType \<Rightarrow> string" where
  "notification_value EMAIL_RECIPIENTS = ''EMAIL_RECIPIENTS''"
| "notification_value MS_TEAMS_CHANNELS = ''MS_TEAMS_CHANNELS''"
| "notification_value SLACK_CHANNELS = ''SLACK_CHANNELS''"

text \<open>
  The models carry the fields that their callers set. The fields that a default factory
  fills (\<open>uuid\<close>, \<open>started_at\<close>, \<open>ended_at\<close>) are a random value and a clock reading and
  are left out.
\<close>

record TestRunConfigModel =
  cfg_environment :: "string option"
  cfg_build :: "string option"

record MilestoneModel =
  ms_id :: "int option"
  ms_name :: "string option"

record CiContextModel =
  ci_type :: string
  env_variables :: "string \<rightharpoonup> string"

record NotificationTargetModel =
  nt_type :: string
  nt_value :: string

record StartTestRunModel =
  strm_name :: string
  strm_framework :: string
  strm_config :: "TestRunConfigModel option"
  strm_milestone :: "MilestoneModel option"
  strm_ci_context :: "CiContextModel option"
  strm_notification_targets :: "NotificationTargetModel list option"

record LabelModel =
  label_key :: string
  label_value :: string

record CorrelationDataModel =
  cd_name :: string

text \<open>
  \<open>stm_correlation_data\<close> holds the model whose \<open>.json()\<close> text the field of the source
  carries.
\<close>

record StartTestModel =
  stm_name :: string
  stm_class_name :: string
  stm_method_name :: string
  stm_correlation_data :: "CorrelationDataModel option"
  stm_maintainer :: "string option"
  stm_labels :: "LabelModel list"

record FinishTestModel =
  ftm_result :: string
  ftm_reason :: pyval

record LogRecordModel =
  log_test_id :: string
  log_level :: string
  log_timestamp :: string
  log_message :: string

record StartTestSessionModel =
  sts_session_id :: string
  sts_desired_capabilities :: "string \<rightharpoonup> pyval"
  sts_capabilities :: "string \<rightharpoonup> pyval"

record FinishTestSessionModel =
  fts_test_ids :: "string list"

record TestModel =
  tm_name :: string
  tm_correlation_data :: "CorrelationDataModel option"
  tm_status :: string

record RerunDataModel =
  rd_id :: string
  rd_run_exists :: bool
  rd_rerun_only_failed_tests :: bool
  rd_tests :: "TestModel list"

section \<open>The test framework's objects\<close>

text \<open>
  What the orchestrator reads of a pytest \<open>Mark\<close>, \<open>Item\<close> and \<open>TestReport\<close>. The positional
  arguments of a marker are texts (the maintainer and label markers take names).
  \<open>parent_markers\<close> are the markers of the enclosing nodes, the nearest node first.
\<close>

record Mark =
  mark_name :: string
  mark_args :: "string list"
  mark_kwargs :: "string \<rightharpoonup> pyval"

record Item =
  item_name :: string
  nodeid :: string
  own_markers :: "Mark list"
  parent_markers :: "Mark list"

text \<open>\<open>item.iter_markers(name)\<close>: the item's own markers, then those of its parents.\<close>

definition iter_markers :: "Item \<Rightarrow> string \<Rightarrow> Mark list" where
  "iter_markers item n = filter (\<lambda>m. mark_name m = n) (own_markers item @ parent_markers item)"

record TestReport =
  outcome :: string
  longreprtext :: string

definition passed :: "TestReport \<Rightarrow> bool" where
  "passed report = (outcome report = ''passed'')"

definition skipped :: "TestReport \<Rightarrow> bool" where
  "skipped report = (outcome report = ''skipped'')"

section \<open>Settings and the execution context\<close>

text \<open>
  The settings object is read only; its declaration is not among the sources, so the
  records hold the attributes that the orchestrator reads.
\<close>

record NotificationsSettings =
  emails :: "string option"
  slack_channels :: "string option"
  ms_teams_channels :: "string option"

record MilestoneSettings =
  milestone_id :: "int option"
  milestone_name :: "string option"

record RunSettings =
  display_name :: string
  environment :: "string option"
  build :: "string option"
  run_context :: "string option"

record Settings =
  project_key :: string
  send_logs :: bool
  run :: RunSettings
  milestone :: "MilestoneSettings option"
  notifications :: "NotificationsSettings option"

text \<open>
  \<open>TestRun(name, environment, build)\<close> and \<open>Test(name, file, maintainers, labels)\<close> of the
  context module; a fresh object has no server identifier.
\<close>

record TestRun =
  run_name :: string
  run_environment :: "string option"
  run_build :: "string option"
  run_zebrunner_id :: pyval

record Test =
  test_name :: string
  test_file :: string
  test_maintainers :: "string list"
  test_labels :: "(string \<times> string) list"
  test_zebrunner_id :: pyval

record ZebrunnerContext =
  settings :: Settings
  test_run :: "TestRun option"
  test :: "Test option"

text \<open>
  Modelled from the spec: the derived attributes of \<open>zebrunner_context\<close> (module
  \<open>pytest_zebrunner.context\<close>, which is not among the sources). A Run is active when it
  has a server identifier; a Test is active when the Run is active and the Test has a
  server identifier. The identifiers are absent when the object is.
\<close>

definition test_run_is_active :: "ZebrunnerContext \<Rightarrow> bool" where
  "test_run_is_active c =
     (case test_run c of None \<Rightarrow> False | Some r \<Rightarrow> run_zebrunner_id r \<noteq> PNone)"

definition test_is_active :: "ZebrunnerContext \<Rightarrow> bool" where
  "test_is_active c =
     (test_run_is_active c \<and>
      (case test c of None \<Rightarrow> False | Some t \<Rightarrow> test_zebrunner_id t \<noteq> PNone))"

definition test_run_id :: "ZebrunnerContext \<Rightarrow> pyval" where
  "test_run_id c = (case test_run c of None \<Rightarrow> PNone | Some r \<Rightarrow> run_zebrunner_id r)"

definition test_id :: "ZebrunnerContext \<Rightarrow> pyval" where
  "test_id c = (case test c of None \<Rightarrow> PNone | Some t \<Rightarrow> test_zebrunner_id t)"

text \<open>Modelled from the spec: the context of a fresh process holds no Run and no Test.\<close>

definition initial_context :: "Settings \<Rightarrow> ZebrunnerContext" where
  "initial_context s = \<lparr>settings = s, test_run = None, test = None\<rparr>"

section \<open>The world: context, client, root logger and the trace of effects\<close>

text \<open>
  A request is the HTTP method and endpoint (the constructor) with what the client puts
  into the URL, the query and the body:
  \<^item> \<open>PostAuthRefresh\<close>: POST /api/iam/v1/auth/refresh, the refresh token;
  \<^item> \<open>PostTestRun\<close>: POST /api/reporting/v1/test-runs, the project key and the body;
  \<^item> \<open>PostTest\<close>: POST .../test-runs/{run}/tests;
  \<^item> \<open>PutTest\<close>: PUT .../test-runs/{run}/tests/{test};
  \<^item> \<open>PutTestRun\<close>: PUT .../test-runs/{run}, the \<open>endedAt\<close> instant in microseconds;
  \<^item> \<open>PostLogs\<close>: POST .../test-runs/{run}/logs;
  \<^item> \<open>PostScreenshot\<close>: POST .../test-runs/{run}/tests/{test}/screenshots, the bytes.
\<close>

datatype request =
    PostAuthRefresh string
  | PostTestRun string StartTestRunModel
  | PostTest pyval StartTestModel
  | PutTest pyval pyval FinishTestModel
  | PutTestRun pyval int
  | PostLogs pyval "LogRecordModel list"
  | PostScreenshot pyval pyval string

text \<open>
  The body of a response: text that is not JSON (an HTML error page, an empty body), a
  JSON value that is not an object, or a JSON object with its fields.
\<close>

datatype body = NotJson | JsonValue | JsonObject "string \<rightharpoonup> pyval"

text \<open>
  What a request meets: \<open>httpx.RequestError\<close> is raised, or a response arrives, with its
  status code and its body.
\<close>

datatype answer = TransportFailure | Response int body

datatype log_level = DEBUG | WARNING | ERROR

text \<open>
  The effects in the order in which they happen: a request sent, a record written by
  the module's logger, the flush of the log sink, the release of the connections.
\<close>

datatype effect = Request request | Logged log_level | PushLogs | ClientClosed

datatype handler = ZebrunnerHandler | OtherHandler

record ZebrunnerAPI =
  service_url :: string
  access_token :: string
  auth_token :: pyval
  authenticated :: bool

record world =
  ctx :: ZebrunnerContext
  api :: ZebrunnerAPI
  handlers :: "handler list"
  effects :: "effect list"

text \<open>
  The surroundings of a call: the remote service (its answer to a request, given the
  effects so far), the CI context resolver, the clock in microseconds (given the
  effects so far) and the file system.
\<close>

record env =
  net :: "effect list \<Rightarrow> request \<Rightarrow> answer"
  resolve_ci_context :: "CiContextModel option"
  utcnow :: "effect list \<Rightarrow> int"
  read_file :: "string \<rightharpoonup> string"

text \<open>
  An operation returns its result or the exception it raises, and the world as it is
  then. \<open>then_do\<close> runs the rest of a body after a call, unless the call raised.
\<close>

definition then_do ::
  "(error + 'a) \<times> world \<Rightarrow> ('a \<Rightarrow> world \<Rightarrow> (error + 'b) \<times> world) \<Rightarrow> (error + 'b) \<times> world" where
  "then_do rw f = (case rw of (Inl e, w) \<Rightarrow> (Inl e, w) | (Inr a, w) \<Rightarrow> f a w)"

definition send :: "env \<Rightarrow> request \<Rightarrow> world \<Rightarrow> answer \<times> world" where
  "send e req w = (net e (effects w) req, w\<lparr>effects := effects w @ [Request req]\<rparr>)"

definition logged :: "log_level \<Rightarrow> world \<Rightarrow> world" where
  "logged lvl w = w\<lparr>effects := effects w @ [Logged lvl]\<rparr>"

section \<open>zebrunner_api/client.py: the class ZebrunnerAPI\<close>

text \<open>
  The orchestrator names its client class \<open>ZebrunnerAPI\<close>; this file holds the class of
  that name. The embedding covers a client built with a service URL and an access
  token, the case in which the constructor sets the attributes.
\<close>

text \<open>\<open>response.json()[key]\<close>.\<close>

definition json_field :: "body \<Rightarrow> string \<Rightarrow> error + pyval" where
  "json_field b key =
     (case b of
        NotJson \<Rightarrow> Inl JSONDecodeError
      | JsonValue \<Rightarrow> Inl TypeError
      | JsonObject obj \<Rightarrow> (case obj key of None \<Rightarrow> Inl KeyError | Some v \<Rightarrow> Inr v))"

text \<open>
  \<open>log_response\<close> formats \<open>response.json()\<close> into its message before it logs, so a body
  that is not JSON raises and nothing is logged; otherwise it writes one record of the
  given level.
\<close>

definition log_response :: "body \<Rightarrow> log_level \<Rightarrow> world \<Rightarrow> (error + unit) \<times> world" where
  "log_response b lvl w =
     (case b of NotJson \<Rightarrow> (Inl JSONDecodeError, w) | _ \<Rightarrow> (Inr (), logged lvl w))"

definition auth :: "env \<Rightarrow> world \<Rightarrow> (error + unit) \<times> world" where
  "auth e w =
     (if access_token (api w) = [] \<or> service_url (api w) = [] then (Inr (), w)
      else case send e (PostAuthRefresh (access_token (api w))) w of
        (TransportFailure, w1) \<Rightarrow> (Inr (), logged WARNING w1)
      | (Response code b, w1) \<Rightarrow>
          if code \<noteq> 200 then log_response b ERROR w1
          else (case json_field b ''authToken'' of
                  Inl err \<Rightarrow> (Inl err, w1)
                | Inr tok \<Rightarrow>
                    (Inr (), w1\<lparr>api := (api w1)\<lparr>auth_token := tok, authenticated := True\<rparr>\<rparr>)))"

definition api_start_test_run ::
  "env \<Rightarrow> string \<Rightarrow> StartTestRunModel \<Rightarrow> world \<Rightarrow> (error + pyval) \<times> world" where
  "api_start_test_run e key model w =
     (case send e (PostTestRun key model) w of
        (TransportFailure, w1) \<Rightarrow> (Inr PNone, logged WARNING w1)
      | (Response code b, w1) \<Rightarrow>
          if code \<noteq> 200 then then_do (log_response b ERROR w1) (\<lambda>_ w2. (Inr PNone, w2))
          else (case json_field b ''id'' of Inl err \<Rightarrow> (Inl err, w1) | Inr v \<Rightarrow> (Inr v, w1)))"

definition api_start_test ::
  "env \<Rightarrow> pyval \<Rightarrow> StartTestModel \<Rightarrow> world \<Rightarrow> (error + pyval) \<times> world" where
  "api_start_test e rid model w =
     (case send e (PostTest rid model) w of
        (TransportFailure, w1) \<Rightarrow> (Inr PNone, logged WARNING w1)
      | (Response code b, w1) \<Rightarrow>
          if code \<noteq> 200 then then_do (log_response b ERROR w1) (\<lambda>_ w2. (Inr PNone, w2))
          else (case json_field b ''id'' of Inl err \<Rightarrow> (Inl err, w1) | Inr v \<Rightarrow> (Inr v, w1)))"

definition api_finish_test ::
  "env \<Rightarrow> pyval \<Rightarrow> pyval \<Rightarrow> FinishTestModel \<Rightarrow> world \<Rightarrow> (error + unit) \<times> world" where
  "api_finish_test e rid tid model w =
     (case send e (PutTest rid tid model) w of
        (TransportFailure, w1) \<Rightarrow> (Inr (), logged WARNING w1)
      | (Response code b, w1) \<Rightarrow>
          if code \<noteq> 200 then log_response b ERROR w1 else (Inr (), w1))"

text \<open>The body of the request is the clock's reading less one second.\<close>

definition api_finish_test_run :: "env \<Rightarrow> pyval \<Rightarrow> world \<Rightarrow> (error + unit) \<times> world" where
  "api_finish_test_run e rid w =
     (case send e (PutTestRun rid (utcnow e (effects w) - 1000000)) w of
        (TransportFailure, w1) \<Rightarrow> (Inr (), logged WARNING w1)
      | (Response code b, w1) \<Rightarrow>
          if code \<noteq> 200 then log_response b ERROR w1 else (Inr (), w1))"

text \<open>
  \<open>send_logs\<close> and \<open>send_screenshot\<close> post outside any \<open>try\<close> and do not look at the
  response.
\<close>

definition api_send_logs ::
  "env \<Rightarrow> pyval \<Rightarrow> LogRecordModel list \<Rightarrow> world \<Rightarrow> (error + unit) \<times> world" where
  "api_send_logs e rid logs w =
     (case send e (PostLogs rid logs) w of
        (TransportFailure, w1) \<Rightarrow> (Inl RequestError, w1)
      | (Response code b, w1) \<Rightarrow> (Inr (), w1))"

definition api_send_screenshot ::
  "env \<Rightarrow> pyval \<Rightarrow> pyval \<Rightarrow> string \<Rightarrow> world \<Rightarrow> (error + unit) \<times> world" where
  "api_send_screenshot e rid tid image_path w =
     (case read_file e image_path of
        None \<Rightarrow> (Inl OSError, w)
      | Some content \<Rightarrow>
          (case send e (PostScreenshot rid tid content) w of
             (TransportFailure, w1) \<Rightarrow> (Inl RequestError, w1)
           | (Response code b, w1) \<Rightarrow> (Inr (), w1)))"

text \<open>The session operations of this class send nothing.\<close>

definition api_start_test_session :: "StartTestSessionModel \<Rightarrow> world \<Rightarrow> (error + pyval) \<times> world" where
  "api_start_test_session body w = (Inr PNone, w)"

definition api_finish_test_session ::
  "string \<Rightarrow> FinishTestSessionModel \<Rightarrow> world \<Rightarrow> (error + unit) \<times> world" where
  "api_finish_test_session zebrunner_id body w = (Inr (), w)"

definition api_send_artifact :: "pyval \<Rightarrow> world \<Rightarrow> (error + unit) \<times> world" where
  "api_send_artifact rid w = (Inl NotImplementedError, w)"

definition api_close :: "world \<Rightarrow> (error + unit) \<times> world" where
  "api_close w = (Inr (), w\<lparr>effects := effects w @ [ClientClosed]\<rparr>)"

section \<open>reporting_service.py: the class ReportingService\<close>

definition authorize :: "env \<Rightarrow> world \<Rightarrow> (error + unit) \<times> world" where
  "authorize e w = (if \<not> authenticated (api w) then auth e w else (Inr (), w))"

text \<open>
  An optional text of the settings is true when it is there and not empty.
  \<open>target\<close> is one \<open>if v: configs.append(NotificationTargetModel(type, v))\<close>.
\<close>

definition configured :: "string option \<Rightarrow> bool" where
  "configured v = (case v of None \<Rightarrow> False | Some s \<Rightarrow> s \<noteq> [])"

definition target :: "NotificationsType \<Rightarrow> string option \<Rightarrow> NotificationTargetModel list" where
  "target ty v =
     (case v of
        None \<Rightarrow> []
      | Some s \<Rightarrow> if s \<noteq> [] then [\<lparr>nt_type = notification_value ty, nt_value = s\<rparr>] else [])"

definition get_notification_configurations :: "Settings \<Rightarrow> NotificationTargetModel list option" where
  "get_notification_configurations s =
     (case notifications s of
        Some n \<Rightarrow>
          Some (target EMAIL_RECIPIENTS (emails n) @
                target SLACK_CHANNELS (slack_channels n) @
                target MS_TEAMS_CHANNELS (ms_teams_channels n))
      | None \<Rightarrow> None)"

definition set_test_run :: "TestRun option \<Rightarrow> world \<Rightarrow> world" where
  "set_test_run r w = w\<lparr>ctx := (ctx w)\<lparr>test_run := r\<rparr>\<rparr>"

definition set_test :: "Test option \<Rightarrow> world \<Rightarrow> world" where
  "set_test t w = w\<lparr>ctx := (ctx w)\<lparr>test := t\<rparr>\<rparr>"

definition add_handler :: "handler \<Rightarrow> world \<Rightarrow> world" where
  "add_handler h w = w\<lparr>handlers := handlers w @ [h]\<rparr>"

definition start_test_run :: "env \<Rightarrow> world \<Rightarrow> (error + unit) \<times> world" where
  "start_test_run e w =
     then_do (authorize e w) (\<lambda>_ w1.
       let s = settings (ctx w1);
           r = \<lparr>run_name = display_name (run s), run_environment = environment (run s),
                run_build = build (run s), run_zebrunner_id = PNone\<rparr>;
           w2 = set_test_run (Some r) w1;
           m = (case milestone s of
                  Some ms \<Rightarrow> Some \<lparr>ms_id = milestone_id ms, ms_name = milestone_name ms\<rparr>
                | None \<Rightarrow> None)
       in then_do
            (api_start_test_run e (project_key s)
               \<lparr>strm_name = run_name r, strm_framework = ''pytest'',
                strm_config = Some \<lparr>cfg_environment = run_environment r, cfg_build = run_build r\<rparr>,
                strm_milestone = m, strm_ci_context = resolve_ci_context e,
                strm_notification_targets = get_notification_configurations s\<rparr> w2)
            (\<lambda>ident w3.
               let w4 = set_test_run (Some (r\<lparr>run_zebrunner_id := ident\<rparr>)) w3
               in (Inr (), if send_logs s then add_handler ZebrunnerHandler w4 else w4)))"

text \<open>
  The construction of the \<open>Test\<close> object (lines 88 to 93). The arguments are evaluated
  in the order written, and a subscript out of range raises \<open>IndexError\<close>; \<open>collect\<close> is
  a list comprehension with such an element.
\<close>

fun collect :: "('a \<Rightarrow> error + 'b) \<Rightarrow> 'a list \<Rightarrow> error + 'b list" where
  "collect f [] = Inr []"
| "collect f (x # xs) =
     (case f x of
        Inl err \<Rightarrow> Inl err
      | Inr y \<Rightarrow> (case collect f xs of Inl err \<Rightarrow> Inl err | Inr ys \<Rightarrow> Inr (y # ys)))"

definition label_of :: "Mark \<Rightarrow> error + string \<times> string" where
  "label_of m =
     (case subscript (mark_args m) 0 of
        Inl err \<Rightarrow> Inl err
      | Inr k \<Rightarrow> (case subscript (mark_args m) 1 of Inl err \<Rightarrow> Inl err | Inr v \<Rightarrow> Inr (k, v)))"

definition new_test :: "Item \<Rightarrow> error + Test" where
  "new_test item =
     (case subscript (split (nodeid item) ''::'') 1 of
        Inl err \<Rightarrow> Inl err
      | Inr file \<Rightarrow>
          (case collect (\<lambda>m. subscript (mark_args m) 0) (iter_markers item ''maintainer'') of
             Inl err \<Rightarrow> Inl err
           | Inr ms \<Rightarrow>
               (case collect label_of (iter_markers item ''label'') of
                  Inl err \<Rightarrow> Inl err
                | Inr ls \<Rightarrow>
                    Inr \<lparr>test_name = item_name item, test_file = file, test_maintainers = ms,
                         test_labels = ls, test_zebrunner_id = PNone\<rparr>)))"

text \<open>\<open>sep.join(xs)\<close>.\<close>

fun join :: "string \<Rightarrow> string list \<Rightarrow> string" where
  "join sep [] = []"
| "join sep [x] = x"
| "join sep (x # y # ys) = x @ sep @ join sep (y # ys)"

text \<open>
  \<open>start_test\<close> in its two parts: lines 87 to 107 register the test, lines 109 to 117
  report a test that the framework skipped.
\<close>

definition start_test_begin :: "env \<Rightarrow> world \<Rightarrow> Item \<Rightarrow> (error + unit) \<times> world" where
  "start_test_begin e w item =
     then_do (authorize e w) (\<lambda>_ w1.
       case new_test item of
         Inl err \<Rightarrow> (Inl err, w1)
       | Inr t \<Rightarrow>
           let w2 = set_test (Some t) w1
           in if test_run_is_active (ctx w2)
              then then_do
                     (api_start_test e (test_run_id (ctx w2))
                        \<lparr>stm_name = test_name t, stm_class_name = test_file t,
                         stm_method_name = test_name t,
                         stm_correlation_data = Some \<lparr>cd_name = test_name t\<rparr>,
                         stm_maintainer = Some (join '','' (test_maintainers t)),
                         stm_labels =
                           map (\<lambda>l. \<lparr>label_key = fst l, label_value = snd l\<rparr>) (test_labels t)\<rparr>
                        w2)
                     (\<lambda>ident w3. (Inr (), set_test (Some (t\<lparr>test_zebrunner_id := ident\<rparr>)) w3))
              else (Inr (), w2))"

definition skip_reason :: "Item \<Rightarrow> pyval" where
  "skip_reason item =
     (case filter (\<lambda>x. mark_name x = ''skip'') (own_markers item) of
        [] \<Rightarrow> PNone
      | m # _ \<Rightarrow> dict_get (mark_kwargs m) ''reason'' PNone)"

definition start_test_skipped :: "env \<Rightarrow> world \<Rightarrow> TestReport \<Rightarrow> Item \<Rightarrow> (error + unit) \<times> world" where
  "start_test_skipped e w report item =
     (if skipped report \<and> test_is_active (ctx w)
      then then_do
             (api_finish_test e (test_run_id (ctx w)) (test_id (ctx w))
                \<lparr>ftm_result = status_value SKIPPED, ftm_reason = skip_reason item\<rparr> w)
             (\<lambda>_ w1. (Inr (), set_test None w1))
      else (Inr (), w))"

definition start_test :: "env \<Rightarrow> world \<Rightarrow> TestReport \<Rightarrow> Item \<Rightarrow> (error + unit) \<times> world" where
  "start_test e w report item =
     then_do (start_test_begin e w item) (\<lambda>_ w1. start_test_skipped e w1 report item)"

text \<open>
  The status and the reason that \<open>finish_test\<close> sends (lines 122 to 142), with the
  assignments of the source folded into the branches that make them.
\<close>

definition resolve :: "TestReport \<Rightarrow> Item \<Rightarrow> TestStatus \<times> pyval" where
  "resolve report item =
     (let xfail_markers = iter_markers item ''xfail'';
          fail_reason =
            (case xfail_markers of [] \<Rightarrow> PNone | m # _ \<Rightarrow> dict_get (mark_kwargs m) ''reason'' PNone);
          is_strict =
            (case xfail_markers of
               [] \<Rightarrow> PBool False
             | m # _ \<Rightarrow> dict_get (mark_kwargs m) ''strict'' (PBool False))
      in if passed report
         then (if xfail_markers \<noteq> []
               then (if truthy is_strict then (FAILED, PStr (longreprtext report))
                     else (SKIPPED, fail_reason))
               else (PASSED, fail_reason))
         else (if xfail_markers \<noteq> []
               then (SKIPPED,
                     (case xfail_markers of
                        [] \<Rightarrow> PNone
                      | m # _ \<Rightarrow> dict_get (mark_kwargs m) ''reason'' PNone))
               else (FAILED, PStr (longreprtext report))))"

definition finish_test :: "env \<Rightarrow> world \<Rightarrow> TestReport \<Rightarrow> Item \<Rightarrow> (error + unit) \<times> world" where
  "finish_test e w report item =
     (if test_is_active (ctx w)
      then then_do (authorize e w) (\<lambda>_ w1.
             then_do
               (api_finish_test e (test_run_id (ctx w1)) (test_id (ctx w1))
                  \<lparr>ftm_result = status_value (fst (resolve report item)),
                   ftm_reason = snd (resolve report item)\<rparr> w1)
               (\<lambda>_ w2. (Inr (), set_test None w2)))
      else (Inr (), w))"

text \<open>
  \<open>push_logs\<close> is the method of \<open>ZebrunnerHandler\<close> (module
  \<open>pytest_zebrunner.zebrunner_logging\<close>, which is not among the sources); it is a
  parameter, called for the first handler of that class when there is one.
\<close>

definition finish_test_run ::
  "(world \<Rightarrow> (error + unit) \<times> world) \<Rightarrow> env \<Rightarrow> world \<Rightarrow> (error + unit) \<times> world" where
  "finish_test_run push_logs e w =
     then_do (authorize e w) (\<lambda>_ w1.
       then_do
         (if test_run_is_active (ctx w1)
          then then_do (api_finish_test_run e (test_run_id (ctx w1)) w1) (\<lambda>_ w2.
                 if 0 < length (filter (\<lambda>x. x = ZebrunnerHandler) (handlers w2))
                 then push_logs w2 else (Inr (), w2))
          else (Inr (), w1))
         (\<lambda>_ w3. api_close w3))"

text \<open>
  The orchestrator calls the session operations and \<open>get_rerun_tests\<close> of the client
  class of module \<open>pytest_zebrunner.api.client\<close>, with the run identifier as the first
  argument of the session operations. That module is not among the sources, and the
  class at hand declares the session operations without the run identifier and has no
  \<open>get_rerun_tests\<close>; so the three operations are parameters here, and nothing is
  proved of what they do.
\<close>

definition start_test_session ::
  "(pyval \<Rightarrow> StartTestSessionModel \<Rightarrow> world \<Rightarrow> (error + pyval) \<times> world) \<Rightarrow>
   env \<Rightarrow> world \<Rightarrow> string \<Rightarrow> (string \<rightharpoonup> pyval) \<Rightarrow> (string \<rightharpoonup> pyval) \<Rightarrow> (error + pyval) \<times> world" where
  "start_test_session client_start e w session_id capabilities desired_capabilities =
     then_do (authorize e w) (\<lambda>_ w1.
       if test_run_is_active (ctx w1)
       then then_do
              (client_start (test_run_id (ctx w1))
                 \<lparr>sts_session_id = session_id, sts_desired_capabilities = desired_capabilities,
                  sts_capabilities = capabilities\<rparr> w1)
              (\<lambda>zebrunner_session_id w2. (Inr zebrunner_session_id, w2))
       else (Inr PNone, w1))"

definition finish_test_session ::
  "(pyval \<Rightarrow> string \<Rightarrow> FinishTestSessionModel \<Rightarrow> world \<Rightarrow> (error + unit) \<times> world) \<Rightarrow>
   env \<Rightarrow> world \<Rightarrow> string \<Rightarrow> string list \<Rightarrow> (error + unit) \<times> world" where
  "finish_test_session client_finish e w zebrunner_session_id related_tests =
     then_do (authorize e w) (\<lambda>_ w1.
       if test_run_is_active (ctx w1)
       then client_finish (test_run_id (ctx w1)) zebrunner_session_id
              \<lparr>fts_test_ids = related_tests\<rparr> w1
       else (Inr (), w1))"

definition rerun_names :: "RerunDataModel \<Rightarrow> string list" where
  "rerun_names context_data =
     List.map_filter (\<lambda>x. map_option cd_name (tm_correlation_data x)) (rd_tests context_data)"

definition filter_test_items ::
  "(string \<Rightarrow> world \<Rightarrow> (error + RerunDataModel) \<times> world) \<Rightarrow>
   env \<Rightarrow> world \<Rightarrow> Item list \<Rightarrow> (error + Item list) \<times> world" where
  "filter_test_items get_rerun_tests e w items =
     (case run_context (run (settings (ctx w))) of
        Some token \<Rightarrow>
          then_do (authorize e w) (\<lambda>_ w1.
            then_do (get_rerun_tests token w1) (\<lambda>context_data w2.
              (Inr (filter (\<lambda>x. item_name x \<in> set (rerun_names context_data)) items), w2)))
      | None \<Rightarrow> (Inr items, w))"

section \<open>Sequences of events, and what a trace holds\<close>

text \<open>
  The framework calls the two per-test hooks one after the other; each call starts in
  the world that the one before has left, also when that one raised.
\<close>

datatype event = StartTest TestReport Item | FinishTest TestReport Item

fun handle :: "env \<Rightarrow> world \<Rightarrow> event \<Rightarrow> (error + unit) \<times> world" where
  "handle e w (StartTest report item) = start_test e w report item"
| "handle e w (FinishTest report item) = finish_test e w report item"

definition dispatch :: "env \<Rightarrow> world \<Rightarrow> event list \<Rightarrow> world" where
  "dispatch e w evs = foldl (\<lambda>w1 ev. snd (handle e w1 ev)) w evs"

text \<open>The requests of the test lifecycle (start-test and finish-test), and the finish-test ones.\<close>

fun test_call :: "effect \<Rightarrow> bool" where
  "test_call (Request (PostTest rid body)) = True"
| "test_call (Request (PutTest rid tid body)) = True"
| "test_call x = False"

fun finish_call :: "effect \<Rightarrow> bool" where
  "finish_call (Request (PutTest rid tid body)) = True"
| "finish_call x = False"

fun is_request :: "effect \<Rightarrow> bool" where
  "is_request (Request r) = True"
| "is_request x = False"

text \<open>What \<open>authorize\<close> can add to a trace: the refresh request and a log record.\<close>

fun auth_effect :: "effect \<Rightarrow> bool" where
  "auth_effect (Request (PostAuthRefresh tok)) = True"
| "auth_effect (Logged lvl) = True"
| "auth_effect x = False"

section \<open>Sample objects\<close>

definition sample_settings :: Settings where
  "sample_settings =
     \<lparr>project_key = ''DEF'', send_logs = True,
      run = \<lparr>display_name = ''nightly'', environment = Some ''stage'', build = None,
             run_context = None\<rparr>,
      milestone = None, notifications = None\<rparr>"

definition sample_api :: ZebrunnerAPI where
  "sample_api =
     \<lparr>service_url = ''https://zebrunner.example'', access_token = ''refresh'',
      auth_token = PNone, authenticated = False\<rparr>"

definition fresh_world :: world where
  "fresh_world =
     \<lparr>ctx = initial_context sample_settings, api = sample_api, handlers = [], effects = []\<rparr>"

text \<open>A world in which run 1 and its test 2 are active and the client holds a credential.\<close>

definition running_world :: world where
  "running_world =
     \<lparr>ctx = \<lparr>settings = sample_settings,
              test_run = Some \<lparr>run_name = ''nightly'', run_environment = Some ''stage'',
                               run_build = None, run_zebrunner_id = PInt 1\<rparr>,
              test = Some \<lparr>test_name = ''test_a'', test_file = ''test_a'', test_maintainers = [],
                           test_labels = [], test_zebrunner_id = PInt 2\<rparr>\<rparr>,
      api = sample_api\<lparr>auth_token := PStr ''bearer'', authenticated := True\<rparr>,
      handlers = [ZebrunnerHandler], effects = []\<rparr>"

text \<open>
  A service that answers every request with status 200, one that cannot be reached, and
  one that is reached for everything but the start of a test.
\<close>

definition service_up :: env where
  "service_up =
     \<lparr>net = (\<lambda>h req. case req of
                PostAuthRefresh t \<Rightarrow> Response 200 (JsonObject [''authToken'' \<mapsto> PStr ''bearer''])
              | PostTestRun k m \<Rightarrow> Response 200 (JsonObject [''id'' \<mapsto> PInt 1])
              | PostTest r m \<Rightarrow> Response 200 (JsonObject [''id'' \<mapsto> PInt 2])
              | _ \<Rightarrow> Response 200 (JsonObject Map.empty)),
      resolve_ci_context = None, utcnow = (\<lambda>h. 5000000), read_file = Map.empty\<rparr>"

definition service_down :: env where
  "service_down = service_up\<lparr>net := (\<lambda>h req. TransportFailure)\<rparr>"

definition service_without_tests :: env where
  "service_without_tests =
     service_up\<lparr>net := (\<lambda>h req. case req of
                PostTest r b \<Rightarrow> TransportFailure
              | _ \<Rightarrow> net service_up h req)\<rparr>"

definition mark :: "string \<Rightarrow> (string \<rightharpoonup> pyval) \<Rightarrow> Mark" where
  "mark n kw = \<lparr>mark_name = n, mark_args = [], mark_kwargs = kw\<rparr>"

definition sample_item :: "Mark list \<Rightarrow> Item" where
  "sample_item ms =
     \<lparr>item_name = ''test_a'', nodeid = ''tests/test_a.py::test_a'', own_markers = ms,
      parent_markers = []\<rparr>"

definition report_passed :: TestReport where
  "report_passed = \<lparr>outcome = ''passed'', longreprtext = []\<rparr>"

definition report_failed :: TestReport where
  "report_failed = \<lparr>outcome = ''failed'', longreprtext = ''assert 1 == 2''\<rparr>"

definition report_skipped :: TestReport where
  "report_skipped = \<lparr>outcome = ''skipped'', longreprtext = ''Skipped: env''\<rparr>"

definition named_item :: "string \<Rightarrow> Item" where
  "named_item n =
     \<lparr>item_name = n, nodeid = ''tests/test_a.py::'' @ n, own_markers = [], parent_markers = []\<rparr>"

text \<open>A rerun descriptor with one test, which carries correlation data.\<close>

definition sample_rerun :: "string \<Rightarrow> world \<Rightarrow> (error + RerunDataModel) \<times> world" where
  "sample_rerun token w =
     (Inr \<lparr>rd_id = token, rd_run_exists = True, rd_rerun_only_failed_tests = False,
           rd_tests = [\<lparr>tm_name = ''test_a'', tm_correlation_data = Some \<lparr>cd_name = ''test_a''\<rparr>,
                        tm_status = ''FAILED''\<rparr>]\<rparr>, w)"

text \<open>The three channels of a notification block, in the order in which the source reads them.\<close>

definition channels :: "NotificationsSettings \<Rightarrow> (NotificationsType \<times> string option) list" where
  "channels n =
     [(EMAIL_RECIPIENTS, emails n), (SLACK_CHANNELS, slack_channels n),
      (MS_TEAMS_CHANNELS, ms_teams_channels n)]"

text \<open>A service that is reached for everything but the finish of a test.\<close>

definition service_losing_finish :: env where
  "service_losing_finish =
     service_up\<lparr>net := (\<lambda>h req. case req of
                PutTest r t b \<Rightarrow> TransportFailure
              | _ \<Rightarrow> net service_up h req)\<rparr>"

text \<open>A world in which run 1 is active and no test is current.\<close>

definition started_world :: world where
  "started_world = set_test None running_world"

text \<open>
  The client counts a request as failed when no response arrives or the status code is
  not 200. A failed answer is unreadable when its body is not JSON, which is where
  \<open>log_response\<close> raises.
\<close>

definition failed :: "answer \<Rightarrow> bool" where
  "failed a = (case a of TransportFailure \<Rightarrow> True | Response code b \<Rightarrow> code \<noteq> 200)"

definition unreadable :: "answer \<Rightarrow> bool" where
  "unreadable a =
     (case a of TransportFailure \<Rightarrow> False | Response code b \<Rightarrow> code \<noteq> 200 \<and> b = NotJson)"

text \<open>
  A proxy that answers every request with status 502 and an HTML page, and a service
  behind such a proxy for the finish of a test only.
\<close>

definition service_behind_proxy :: env where
  "service_behind_proxy = service_up\<lparr>net := (\<lambda>h req. Response 502 NotJson)\<rparr>"

definition service_with_proxy_on_finish :: env where
  "service_with_proxy_on_finish =
     service_up\<lparr>net := (\<lambda>h req. case req of
                PutTest r t m \<Rightarrow> Response 502 NotJson
              | _ \<Rightarrow> net service_up h req)\<rparr>"

text \<open>An item of a class that carries the skip marker.\<close>

definition class_item :: Item where
  "class_item =
     \<lparr>item_name = ''test_a'', nodeid = ''tests/test_a.py::TestA::test_a'', own_markers = [],
      parent_markers = [\<lparr>mark_name = ''skip'', mark_args = [],
                          mark_kwargs = [''reason'' \<mapsto> PStr ''env'']\<rparr>]\<rparr>"

text \<open>A log sink whose flush is one effect.\<close>

definition flush :: "world \<Rightarrow> (error + unit) \<times> world" where
  "flush w = (Inr (), w\<lparr>effects := effects w @ [PushLogs]\<rparr>)"


section \<open>The client and the orchestrator, step by step\<close>

lemma then_do_Inr [simp]: "then_do (Inr a, w) f = f a w"
  by (simp add: then_do_def)

lemma then_do_Inl [simp]: "then_do (Inl err, w) f = (Inl err, w)"
  by (simp add: then_do_def)

lemma then_do_return: "then_do x (\<lambda>a w. (Inr a, w)) = x"
  by (cases x) (auto simp: then_do_def split: sum.splits)

lemma log_response_frame:
  "ctx (snd (log_response b lvl w)) = ctx w \<and>
   handlers (snd (log_response b lvl w)) = handlers w \<and>
   api (snd (log_response b lvl w)) = api w \<and>
   (\<exists>ls. effects (snd (log_response b lvl w)) = effects w @ ls \<and> list_all auth_effect ls)"
  by (simp add: log_response_def logged_def split: body.splits)

lemma auth_ctx: "ctx (snd (auth e w)) = ctx w"
  by (simp add: auth_def send_def logged_def log_response_def split: answer.splits body.splits sum.splits)

lemma auth_handlers: "handlers (snd (auth e w)) = handlers w"
  by (simp add: auth_def send_def logged_def log_response_def split: answer.splits body.splits sum.splits)

lemma auth_effects:
  "\<exists>es. effects (snd (auth e w)) = effects w @ es \<and> list_all auth_effect es"
  by (simp add: auth_def send_def logged_def log_response_def split: answer.splits body.splits sum.splits)

lemma authorize_ctx: "ctx (snd (authorize e w)) = ctx w"
  by (simp add: authorize_def auth_ctx)

lemma authorize_handlers: "handlers (snd (authorize e w)) = handlers w"
  by (simp add: authorize_def auth_handlers)

lemma authorize_effects:
  "\<exists>es. effects (snd (authorize e w)) = effects w @ es \<and> list_all auth_effect es"
  using auth_effects [of e w] by (simp add: authorize_def)

lemma authorize_authenticated: "authenticated (api w) \<Longrightarrow> authorize e w = (Inr (), w)"
  by (simp add: authorize_def)

lemma auth_effect_not_test_call: "auth_effect x \<Longrightarrow> \<not> test_call x"
  by (cases x rule: auth_effect.cases) auto

lemma auth_effect_not_finish_call: "auth_effect x \<Longrightarrow> \<not> finish_call x"
  by (cases x rule: auth_effect.cases) auto

lemma auth_effects_no_test_call: "list_all auth_effect es \<Longrightarrow> filter test_call es = []"
  by (auto simp: filter_empty_conv list_all_iff auth_effect_not_test_call)

lemma auth_effects_no_finish_call: "list_all auth_effect es \<Longrightarrow> filter finish_call es = []"
  by (auto simp: filter_empty_conv list_all_iff auth_effect_not_finish_call)

lemma request_free_no_finish_call: "filter is_request ls = [] \<Longrightarrow> filter finish_call ls = []"
proof -
  have "finish_call x \<Longrightarrow> is_request x" for x
    by (cases x rule: finish_call.cases) auto
  then show "filter is_request ls = [] \<Longrightarrow> filter finish_call ls = []"
    by (auto simp: filter_empty_conv)
qed

lemma request_free_no_test_call: "filter is_request ls = [] \<Longrightarrow> filter test_call ls = []"
proof -
  have "test_call x \<Longrightarrow> is_request x" for x
    by (cases x rule: test_call.cases) auto
  then show "filter is_request ls = [] \<Longrightarrow> filter test_call ls = []"
    by (auto simp: filter_empty_conv)
qed

lemma api_finish_test_frame:
  "ctx (snd (api_finish_test e rid tid model w)) = ctx w \<and>
   (\<exists>ls. effects (snd (api_finish_test e rid tid model w)) =
           effects w @ Request (PutTest rid tid model) # ls \<and>
         filter is_request ls = [])"
  by (simp add: api_finish_test_def send_def logged_def log_response_def
      split: answer.splits body.splits)

lemma api_finish_test_returns:
  "fst (api_finish_test e rid tid model w) =
   (if unreadable (net e (effects w) (PutTest rid tid model)) then Inl JSONDecodeError else Inr ())"
  by (simp add: api_finish_test_def send_def logged_def log_response_def unreadable_def
      split: answer.splits body.splits)

lemma set_test_simps [simp]:
  "effects (set_test t w) = effects w"
  "handlers (set_test t w) = handlers w"
  "api (set_test t w) = api w"
  "test (ctx (set_test t w)) = t"
  "test_run (ctx (set_test t w)) = test_run (ctx w)"
  "settings (ctx (set_test t w)) = settings (ctx w)"
  by (simp_all add: set_test_def)

lemma resolve_rows:
  "iter_markers item ''xfail'' = [] \<Longrightarrow> passed report \<Longrightarrow> resolve report item = (PASSED, PNone)"
  "iter_markers item ''xfail'' = m # ms \<Longrightarrow> passed report \<Longrightarrow>
     \<not> truthy (dict_get (mark_kwargs m) ''strict'' (PBool False)) \<Longrightarrow>
     resolve report item = (SKIPPED, dict_get (mark_kwargs m) ''reason'' PNone)"
  "iter_markers item ''xfail'' = m # ms \<Longrightarrow> passed report \<Longrightarrow>
     truthy (dict_get (mark_kwargs m) ''strict'' (PBool False)) \<Longrightarrow>
     resolve report item = (FAILED, PStr (longreprtext report))"
  "iter_markers item ''xfail'' = [] \<Longrightarrow> \<not> passed report \<Longrightarrow>
     resolve report item = (FAILED, PStr (longreprtext report))"
  "iter_markers item ''xfail'' = m # ms \<Longrightarrow> \<not> passed report \<Longrightarrow>
     resolve report item = (SKIPPED, dict_get (mark_kwargs m) ''reason'' PNone)"
  by (simp_all add: resolve_def)

text \<open>
  What \<open>finish_test\<close> does on an active Test, by the result of \<open>authorize\<close> and of the
  client's \<open>finish_test\<close>.
\<close>

lemma finish_test_sends:
  assumes "test_is_active (ctx w)"
  shows "fst (finish_test e w report item) =
      (case fst (authorize e w) of
         Inl err \<Rightarrow> Inl err
       | Inr u \<Rightarrow>
           if unreadable (net e (effects (snd (authorize e w)))
                (PutTest (test_run_id (ctx w)) (test_id (ctx w))
                   \<lparr>ftm_result = status_value (fst (resolve report item)),
                    ftm_reason = snd (resolve report item)\<rparr>))
           then Inl JSONDecodeError else Inr ())"
    and "test (ctx (snd (finish_test e w report item))) =
      (if fst (finish_test e w report item) = Inr () then None else test (ctx w))"
    and "filter finish_call (effects (snd (finish_test e w report item))) =
         filter finish_call (effects w) @
         (if fst (authorize e w) = Inr ()
          then [Request (PutTest (test_run_id (ctx w)) (test_id (ctx w))
                  \<lparr>ftm_result = status_value (fst (resolve report item)),
                   ftm_reason = snd (resolve report item)\<rparr>)]
          else [])"
proof -
  let ?model = "\<lparr>ftm_result = status_value (fst (resolve report item)),
             ftm_reason = snd (resolve report item)\<rparr>"
  obtain r wa where a: "authorize e w = (r, wa)" by (cases "authorize e w")
  have ca: "ctx wa = ctx w" using authorize_ctx [of e w] a by simp
  obtain es where es: "effects wa = effects w @ es" "list_all auth_effect es"
    using authorize_effects [of e w] a by auto
  let ?f = "api_finish_test e (test_run_id (ctx w)) (test_id (ctx w)) ?model wa"
  obtain r2 wb where b: "?f = (r2, wb)" by (cases ?f)
  have cb: "ctx wb = ctx w"
    using api_finish_test_frame [of e "test_run_id (ctx w)" "test_id (ctx w)" ?model wa] b ca
    by simp
  obtain ls where ls: "effects wb = effects wa @ Request (PutTest (test_run_id (ctx w)) (test_id (ctx w)) ?model) # ls"
      "filter is_request ls = []"
    using api_finish_test_frame [of e "test_run_id (ctx w)" "test_id (ctx w)" ?model wa] b by auto
  have r2: "r2 = (if unreadable (net e (effects wa) (PutTest (test_run_id (ctx w)) (test_id (ctx w)) ?model))
      then Inl JSONDecodeError else Inr ())"
    using api_finish_test_returns [of e "test_run_id (ctx w)" "test_id (ctx w)" ?model wa] b by simp
  have f: "finish_test e w report item =
      (case r of Inl err \<Rightarrow> (Inl err, wa)
       | Inr u \<Rightarrow> (case r2 of Inl err \<Rightarrow> (Inl err, wb) | Inr u \<Rightarrow> (Inr (), set_test None wb)))"
    using assms a b by (simp add: finish_test_def ca then_do_def split: sum.splits)
  show "fst (finish_test e w report item) =
      (case fst (authorize e w) of
         Inl err \<Rightarrow> Inl err
       | Inr u \<Rightarrow>
           if unreadable (net e (effects (snd (authorize e w)))
                (PutTest (test_run_id (ctx w)) (test_id (ctx w)) ?model))
           then Inl JSONDecodeError else Inr ())"
    by (simp add: f a r2 split: sum.splits)
  show "test (ctx (snd (finish_test e w report item))) =
      (if fst (finish_test e w report item) = Inr () then None else test (ctx w))"
    by (simp add: f ca cb split: sum.splits)
  show "filter finish_call (effects (snd (finish_test e w report item))) =
         filter finish_call (effects w) @
         (if fst (authorize e w) = Inr ()
          then [Request (PutTest (test_run_id (ctx w)) (test_id (ctx w)) ?model)]
          else [])"
    using es ls
    by (simp add: f a auth_effects_no_finish_call request_free_no_finish_call split: sum.splits)
qed

text \<open>
  Claim C1, as amended. When the Test is active and \<open>authorize\<close> has returned,
  \<open>finish_test\<close> sends exactly one finish-test request, for the current run and test,
  whatever the answer to it (when \<open>authorize\<close> raises it sends none), and the status and
  reason of that request are: passed without an xfail marker, PASSED and no reason;
  passed with an xfail marker whose \<open>strict\<close> is not true, SKIPPED and the reason of the
  marker (none only when the marker has none); passed with a strict xfail marker, FAILED
  and the failure text; not passed without an xfail marker, FAILED and the failure text;
  not passed with an xfail marker, SKIPPED and the reason of the marker.
\<close>

theorem finish_test_resolution:
  assumes "test_is_active (ctx w)"
  shows "\<exists>model.
      filter finish_call (effects (snd (finish_test e w report item))) =
        filter finish_call (effects w) @
        (if fst (authorize e w) = Inr ()
         then [Request (PutTest (test_run_id (ctx w)) (test_id (ctx w)) model)] else []) \<and>
      (iter_markers item ''xfail'' = [] \<and> passed report \<longrightarrow>
         ftm_result model = ''PASSED'' \<and> ftm_reason model = PNone) \<and>
      (\<forall>m ms. iter_markers item ''xfail'' = m # ms \<and> passed report \<and>
               \<not> truthy (dict_get (mark_kwargs m) ''strict'' (PBool False)) \<longrightarrow>
         ftm_result model = ''SKIPPED'' \<and> ftm_reason model = dict_get (mark_kwargs m) ''reason'' PNone) \<and>
      (\<forall>m ms. iter_markers item ''xfail'' = m # ms \<and> passed report \<and>
               truthy (dict_get (mark_kwargs m) ''strict'' (PBool False)) \<longrightarrow>
         ftm_result model = ''FAILED'' \<and> ftm_reason model = PStr (longreprtext report)) \<and>
      (iter_markers item ''xfail'' = [] \<and> \<not> passed report \<longrightarrow>
         ftm_result model = ''FAILED'' \<and> ftm_reason model = PStr (longreprtext report)) \<and>
      (\<forall>m ms. iter_markers item ''xfail'' = m # ms \<and> \<not> passed report \<longrightarrow>
         ftm_result model = ''SKIPPED'' \<and> ftm_reason model = dict_get (mark_kwargs m) ''reason'' PNone)"
proof -
  let ?model = "\<lparr>ftm_result = status_value (fst (resolve report item)),
                 ftm_reason = snd (resolve report item)\<rparr>"
  show ?thesis
  proof (intro exI [of _ ?model] conjI allI impI)
    show "filter finish_call (effects (snd (finish_test e w report item))) =
        filter finish_call (effects w) @
        (if fst (authorize e w) = Inr ()
         then [Request (PutTest (test_run_id (ctx w)) (test_id (ctx w)) ?model)] else [])"
      using assms by (rule finish_test_sends)
  qed (simp_all add: resolve_rows)
qed

text \<open>
  Claim C1 as stated fails on its second row: a passed test whose xfail marker is not
  strict and carries a reason is reported as SKIPPED with that reason, not without one.
\<close>

theorem finish_test_xpass_counterexample:
  "test_is_active (ctx running_world) \<and>
   filter finish_call
     (effects (snd (finish_test service_up running_world report_passed
        (sample_item [mark ''xfail'' [''reason'' \<mapsto> PStr ''flaky'', ''strict'' \<mapsto> PBool False]])))) =
   [Request (PutTest (PInt 1) (PInt 2) \<lparr>ftm_result = ''SKIPPED'', ftm_reason = PStr ''flaky''\<rparr>)]"
  by (simp add: finish_test_def running_world_def sample_api_def test_is_active_def
      test_run_is_active_def authorize_def api_finish_test_def send_def service_up_def
      test_run_id_def test_id_def resolve_def iter_markers_def sample_item_def mark_def
      report_passed_def passed_def dict_get_def set_test_def)

theorem finish_test_resolution_witness:
  "test_is_active (ctx running_world) \<and>
   filter finish_call
     (effects (snd (finish_test service_down running_world report_passed
        (sample_item [mark ''xfail'' [''strict'' \<mapsto> PBool True]])))) =
   [Request (PutTest (PInt 1) (PInt 2) \<lparr>ftm_result = ''FAILED'', ftm_reason = PStr []\<rparr>)]"
proof -
  have a: "test_is_active (ctx running_world)"
    by (simp add: running_world_def test_is_active_def test_run_is_active_def)
  have m: "iter_markers (sample_item [mark ''xfail'' [''strict'' \<mapsto> PBool True]]) ''xfail'' =
      [mark ''xfail'' [''strict'' \<mapsto> PBool True]]"
    by (simp add: iter_markers_def sample_item_def mark_def)
  have p: "passed report_passed" by (simp add: passed_def report_passed_def)
  have s: "truthy (dict_get (mark_kwargs (mark ''xfail'' [''strict'' \<mapsto> PBool True])) ''strict'' (PBool False))"
    by (simp add: mark_def dict_get_def)
  have i: "test_run_id (ctx running_world) = PInt 1" "test_id (ctx running_world) = PInt 2"
    "effects running_world = []" "longreprtext report_passed = []"
    "fst (authorize service_down running_world) = Inr ()"
    by (simp_all add: running_world_def test_run_id_def test_id_def report_passed_def
        authorize_def sample_api_def)
  obtain model where b: "filter finish_call
     (effects (snd (finish_test service_down running_world report_passed
        (sample_item [mark ''xfail'' [''strict'' \<mapsto> PBool True]])))) =
       [Request (PutTest (PInt 1) (PInt 2) model)]"
     "ftm_result model = ''FAILED''" "ftm_reason model = PStr []"
    using finish_test_resolution [OF a, of service_down report_passed
        "sample_item [mark ''xfail'' [''strict'' \<mapsto> PBool True]]"] m p s i
    by auto
  from b(2,3) have "model = \<lparr>ftm_result = ''FAILED'', ftm_reason = PStr []\<rparr>" by simp
  with a b(1) show ?thesis by simp
qed

section \<open>Notification targets and the rerun filter\<close>

lemma target_length: "length (target ty v) = (if configured v then 1 else 0)"
  by (simp add: target_def configured_def split: option.splits)

lemma target_pairs:
  "map (\<lambda>t. (nt_type t, Some (nt_value t))) (target ty v) =
   (if configured v then [(notification_value ty, v)] else [])"
  by (simp add: target_def configured_def split: option.splits)

text \<open>
  Claim C6, as amended. Without a notification block the function returns no list at
  all. With a block it returns a list with one target for each channel whose value is
  there and not empty, of that channel's type and value, in the order email recipients,
  Slack channels, MS Teams channels; so its length is the number of such channels, at
  most three.
\<close>

theorem notification_targets:
  "(notifications s = None \<longrightarrow> get_notification_configurations s = None) \<and>
   (\<forall>n. notifications s = Some n \<longrightarrow>
      (\<exists>ts. get_notification_configurations s = Some ts \<and>
            length ts = length (filter (\<lambda>c. configured (snd c)) (channels n)) \<and>
            length ts \<le> 3 \<and>
            map (\<lambda>t. (nt_type t, Some (nt_value t))) ts =
              map (\<lambda>c. (notification_value (fst c), snd c))
                (filter (\<lambda>c. configured (snd c)) (channels n))))"
  by (simp add: get_notification_configurations_def channels_def target_length target_pairs)

text \<open>
  Claim C6 as stated fails where no notification block is configured: the result is
  \<open>None\<close>, not the empty list.
\<close>

theorem notification_targets_absent_counterexample:
  "notifications sample_settings = None \<and>
   get_notification_configurations sample_settings \<noteq> Some []"
  by (simp add: get_notification_configurations_def sample_settings_def)

theorem notification_targets_witness:
  "notifications (sample_settings\<lparr>notifications :=
       Some \<lparr>emails = Some ''qa@example.com'', slack_channels = Some [], ms_teams_channels = Some ''builds''\<rparr>\<rparr>) =
     Some \<lparr>emails = Some ''qa@example.com'', slack_channels = Some [], ms_teams_channels = Some ''builds''\<rparr> \<and>
   get_notification_configurations (sample_settings\<lparr>notifications :=
       Some \<lparr>emails = Some ''qa@example.com'', slack_channels = Some [], ms_teams_channels = Some ''builds''\<rparr>\<rparr>) =
     Some [\<lparr>nt_type = ''EMAIL_RECIPIENTS'', nt_value = ''qa@example.com''\<rparr>,
           \<lparr>nt_type = ''MS_TEAMS_CHANNELS'', nt_value = ''builds''\<rparr>] \<and>
   notifications sample_settings = None \<and> get_notification_configurations sample_settings = None"
  using notification_targets [of sample_settings]
    notification_targets [of "sample_settings\<lparr>notifications :=
       Some \<lparr>emails = Some ''qa@example.com'', slack_channels = Some [], ms_teams_channels = Some ''builds''\<rparr>\<rparr>"]
  by (simp add: sample_settings_def get_notification_configurations_def target_def)

lemma rerun_names_iff:
  "n \<in> set (rerun_names d) \<longleftrightarrow>
   (\<exists>t c. t \<in> set (rd_tests d) \<and> tm_correlation_data t = Some c \<and> n = cd_name c)"
  by (force simp: rerun_names_def map_filter_def image_iff)

text \<open>
  Claim C7. Without a rerun-context token \<open>filter_test_items\<close> returns the items as they
  are and touches nothing. With a token, once \<open>authorize\<close> has returned and the fetch has
  returned the descriptor, it returns the items, in their order, whose name is the
  correlation-data name of a test of the descriptor that carries correlation data.
\<close>

theorem filter_test_items_spec:
  "(run_context (run (settings (ctx w))) = None \<longrightarrow>
      filter_test_items g e w items = (Inr items, w)) \<and>
   (\<forall>token d w1 w2.
      run_context (run (settings (ctx w))) = Some token \<and>
      authorize e w = (Inr (), w1) \<and> g token w1 = (Inr d, w2) \<longrightarrow>
      filter_test_items g e w items =
        (Inr (filter (\<lambda>x. \<exists>t c. t \<in> set (rd_tests d) \<and> tm_correlation_data t = Some c \<and>
                               item_name x = cd_name c) items), w2))"
proof (intro conjI allI impI)
  assume "run_context (run (settings (ctx w))) = None"
  then show "filter_test_items g e w items = (Inr items, w)"
    by (simp add: filter_test_items_def)
next
  fix token d w1 w2
  assume a: "run_context (run (settings (ctx w))) = Some token \<and>
      authorize e w = (Inr (), w1) \<and> g token w1 = (Inr d, w2)"
  then have "filter_test_items g e w items =
      (Inr (filter (\<lambda>x. item_name x \<in> set (rerun_names d)) items), w2)"
    by (simp add: filter_test_items_def)
  then show "filter_test_items g e w items =
        (Inr (filter (\<lambda>x. \<exists>t c. t \<in> set (rd_tests d) \<and> tm_correlation_data t = Some c \<and>
                               item_name x = cd_name c) items), w2)"
    by (simp add: rerun_names_iff)
qed

theorem filter_test_items_witness:
  "filter_test_items sample_rerun service_up fresh_world [named_item ''test_a'', named_item ''test_b''] =
     (Inr [named_item ''test_a'', named_item ''test_b''], fresh_world) \<and>
   fst (filter_test_items sample_rerun service_up
          (fresh_world\<lparr>ctx := (ctx fresh_world)\<lparr>settings := sample_settings\<lparr>run := (run sample_settings)\<lparr>run_context := Some ''token''\<rparr>\<rparr>\<rparr>\<rparr>)
          [named_item ''test_a'', named_item ''test_b'']) =
     Inr [named_item ''test_a'']"
proof -
  let ?w = "fresh_world\<lparr>ctx := (ctx fresh_world)\<lparr>settings := sample_settings\<lparr>run := (run sample_settings)\<lparr>run_context := Some ''token''\<rparr>\<rparr>\<rparr>\<rparr>"
  have a: "authorize service_up ?w = (Inr (), snd (authorize service_up ?w))"
    by (simp add: authorize_def auth_def send_def service_up_def fresh_world_def sample_api_def
        json_field_def)
  have g: "sample_rerun ''token'' (snd (authorize service_up ?w)) =
      (Inr \<lparr>rd_id = ''token'', rd_run_exists = True, rd_rerun_only_failed_tests = False,
           rd_tests = [\<lparr>tm_name = ''test_a'', tm_correlation_data = Some \<lparr>cd_name = ''test_a''\<rparr>,
                        tm_status = ''FAILED''\<rparr>]\<rparr>, snd (authorize service_up ?w))"
    by (simp add: sample_rerun_def)
  have t: "run_context (run (settings (ctx ?w))) = Some ''token''"
    "run_context (run (settings (ctx fresh_world))) = None"
    by (simp_all add: fresh_world_def initial_context_def sample_settings_def)
  show ?thesis
    using filter_test_items_spec [of fresh_world sample_rerun service_up
        "[named_item ''test_a'', named_item ''test_b'']"]
      filter_test_items_spec [of ?w sample_rerun service_up
        "[named_item ''test_a'', named_item ''test_b'']"] a g t
    by (simp add: named_item_def)
qed

section \<open>The start of a test\<close>

lemma test_run_is_active_cong:
  "test_run c = test_run c' \<Longrightarrow> test_run_is_active c = test_run_is_active c'"
  by (simp add: test_run_is_active_def)

lemma test_run_id_cong: "test_run c = test_run c' \<Longrightarrow> test_run_id c = test_run_id c'"
  by (simp add: test_run_id_def)

lemma set_test_run_active [simp]:
  "test_run_is_active (ctx (set_test t w)) = test_run_is_active (ctx w)"
  "test_run_id (ctx (set_test t w)) = test_run_id (ctx w)"
  by (simp_all add: test_run_is_active_def test_run_id_def)

lemma inactive_run_inactive_test: "\<not> test_run_is_active c \<Longrightarrow> \<not> test_is_active c"
  by (simp add: test_is_active_def)

lemma api_start_test_frame:
  "ctx (snd (api_start_test e rid model w)) = ctx w \<and>
   (\<exists>ls. effects (snd (api_start_test e rid model w)) = effects w @ Request (PostTest rid model) # ls
     \<and> filter is_request ls = [])"
  by (simp add: api_start_test_def send_def logged_def log_response_def
      split: answer.splits body.splits sum.splits)

lemma start_test_begin_frame:
  "test_run (ctx (snd (start_test_begin e w item))) = test_run (ctx w) \<and>
   (\<exists>es. effects (snd (start_test_begin e w item)) = effects w @ es \<and>
         filter finish_call es = [] \<and>
         (\<not> test_run_is_active (ctx w) \<longrightarrow> filter test_call es = []))"
proof -
  obtain r wa where a: "authorize e w = (r, wa)" by (cases "authorize e w")
  have ca: "ctx wa = ctx w" using authorize_ctx [of e w] a by simp
  obtain es where es: "effects wa = effects w @ es" "list_all auth_effect es"
    using authorize_effects [of e w] a by auto
  note quiet = auth_effects_no_finish_call [OF es(2)] auth_effects_no_test_call [OF es(2)]
  show ?thesis
  proof (cases r)
    case (Inl err)
    then show ?thesis using es quiet by (simp add: start_test_begin_def a ca)
  next
    case (Inr u)
    show ?thesis
    proof (cases "new_test item")
      case (Inl err)
      then show ?thesis using es quiet by (simp add: start_test_begin_def a Inr ca)
    next
      case t: (Inr t)
      show ?thesis
      proof (cases "test_run_is_active (ctx w)")
        case False
        then show ?thesis using es quiet by (simp add: start_test_begin_def a Inr t ca Let_def)
      next
        case True
        let ?model = "\<lparr>stm_name = test_name t, stm_class_name = test_file t,
                           stm_method_name = test_name t,
                           stm_correlation_data = Some \<lparr>cd_name = test_name t\<rparr>,
                           stm_maintainer = Some (join '','' (test_maintainers t)),
                           stm_labels =
                             map (\<lambda>l. \<lparr>label_key = fst l, label_value = snd l\<rparr>) (test_labels t)\<rparr>"
        let ?c = "api_start_test e (test_run_id (ctx w)) ?model (set_test (Some t) wa)"
        obtain rv wb where b: "?c = (rv, wb)" by (cases ?c)
        have "ctx wb = ctx (set_test (Some t) wa)"
          using api_start_test_frame [of e "test_run_id (ctx w)" ?model "set_test (Some t) wa"] b
          by simp
        then have tr: "test_run (ctx wb) = test_run (ctx w)" by (simp add: ca)
        obtain ls where ls: "effects wb = effects wa @ Request (PostTest (test_run_id (ctx w)) ?model) # ls"
            "filter is_request ls = []"
          using api_start_test_frame [of e "test_run_id (ctx w)" ?model "set_test (Some t) wa"] b
          by auto
        have r: "start_test_begin e w item =
            (case rv of Inl err \<Rightarrow> (Inl err, wb)
             | Inr v \<Rightarrow> (Inr (), set_test (Some (t\<lparr>test_zebrunner_id := v\<rparr>)) wb))"
          using True b
          by (simp add: start_test_begin_def a Inr t ca Let_def
              test_run_id_cong [of "ctx wa" "ctx w"] then_do_def split: sum.splits)
        show ?thesis using True tr es ls quiet
          by (simp add: r request_free_no_finish_call split: sum.splits)
      qed
    qed
  qed
qed

lemma start_test_skipped_frame:
  "test_run (ctx (snd (start_test_skipped e w report item))) = test_run (ctx w) \<and>
   (\<not> test_is_active (ctx w) \<longrightarrow> start_test_skipped e w report item = (Inr (), w))"
proof -
  let ?model = "\<lparr>ftm_result = status_value SKIPPED, ftm_reason = skip_reason item\<rparr>"
  let ?c = "api_finish_test e (test_run_id (ctx w)) (test_id (ctx w)) ?model w"
  obtain r2 wb where b: "?c = (r2, wb)" by (cases ?c)
  have "ctx wb = ctx w"
    using api_finish_test_frame [of e "test_run_id (ctx w)" "test_id (ctx w)" ?model w] b by simp
  then show ?thesis using b
    by (simp add: start_test_skipped_def then_do_def split: sum.splits)
qed

text \<open>
  What the second part of \<open>start_test\<close> does for a skipped report and an active Test: it
  sends one finish-test request with status SKIPPED and the reason read from the item's
  own markers, and it clears the current Test when the client's \<open>finish_test\<close> returns,
  which it does unless the answer is unreadable.
\<close>

lemma start_test_skipped_sends:
  assumes "skipped report" and "test_is_active (ctx w)"
  shows "fst (start_test_skipped e w report item) =
       (if unreadable (net e (effects w) (PutTest (test_run_id (ctx w)) (test_id (ctx w))
              \<lparr>ftm_result = ''SKIPPED'', ftm_reason = skip_reason item\<rparr>))
        then Inl JSONDecodeError else Inr ()) \<and>
     test (ctx (snd (start_test_skipped e w report item))) =
       (if fst (start_test_skipped e w report item) = Inr () then None else test (ctx w)) \<and>
     filter finish_call (effects (snd (start_test_skipped e w report item))) =
       filter finish_call (effects w) @
       [Request (PutTest (test_run_id (ctx w)) (test_id (ctx w))
          \<lparr>ftm_result = ''SKIPPED'', ftm_reason = skip_reason item\<rparr>)]"
proof -
  let ?model = "\<lparr>ftm_result = status_value SKIPPED, ftm_reason = skip_reason item\<rparr>"
  let ?c = "api_finish_test e (test_run_id (ctx w)) (test_id (ctx w)) ?model w"
  obtain r2 wb where b: "?c = (r2, wb)" by (cases ?c)
  have cb: "ctx wb = ctx w"
    using api_finish_test_frame [of e "test_run_id (ctx w)" "test_id (ctx w)" ?model w] b by simp
  obtain ls where ls: "effects wb = effects w @ Request (PutTest (test_run_id (ctx w)) (test_id (ctx w)) ?model) # ls"
      "filter is_request ls = []"
    using api_finish_test_frame [of e "test_run_id (ctx w)" "test_id (ctx w)" ?model w] b by auto
  have r2: "r2 = (if unreadable (net e (effects w) (PutTest (test_run_id (ctx w)) (test_id (ctx w)) ?model))
      then Inl JSONDecodeError else Inr ())"
    using api_finish_test_returns [of e "test_run_id (ctx w)" "test_id (ctx w)" ?model w] b by simp
  have r: "start_test_skipped e w report item =
      (case r2 of Inl err \<Rightarrow> (Inl err, wb) | Inr u \<Rightarrow> (Inr (), set_test None wb))"
    using assms b by (simp add: start_test_skipped_def then_do_def split: sum.splits)
  show ?thesis using ls r2 by (simp add: r cb request_free_no_finish_call)
qed

text \<open>
  Claim C5 fails on the code in two places. First, with a skipped report and an active
  Test, an answer to the finish-test request with status 502 and a body that is not JSON
  makes \<open>log_response\<close> raise; the error leaves \<open>start_test\<close> and the current Test is not
  cleared. Second, the reason is read from the item's own markers only: for an item
  whose class carries \<open>skip(reason='env')\<close>, a marker that \<open>iter_markers\<close> finds, the
  finish-test request carries no reason.
\<close>

theorem start_test_skipped_failures:
  "fst (start_test service_with_proxy_on_finish started_world report_skipped
          (sample_item [mark ''skip'' [''reason'' \<mapsto> PStr ''env'']])) = Inl JSONDecodeError \<and>
   test (ctx (snd (start_test service_with_proxy_on_finish started_world report_skipped
          (sample_item [mark ''skip'' [''reason'' \<mapsto> PStr ''env'']])))) =
     Some \<lparr>test_name = ''test_a'', test_file = ''test_a'', test_maintainers = [],
           test_labels = [], test_zebrunner_id = PInt 2\<rparr> \<and>
   iter_markers class_item ''skip'' =
     [\<lparr>mark_name = ''skip'', mark_args = [], mark_kwargs = [''reason'' \<mapsto> PStr ''env'']\<rparr>] \<and>
   filter finish_call (effects (snd (start_test service_up started_world report_skipped class_item))) =
     [Request (PutTest (PInt 1) (PInt 2) \<lparr>ftm_result = ''SKIPPED'', ftm_reason = PNone\<rparr>)]"
proof -
  let ?item = "sample_item [mark ''skip'' [''reason'' \<mapsto> PStr ''env'']]"
  have n: "new_test ?item = Inr \<lparr>test_name = ''test_a'', test_file = ''test_a'', test_maintainers = [],
                           test_labels = [], test_zebrunner_id = PNone\<rparr>"
    by (simp add: new_test_def sample_item_def split_def subscript_def iter_markers_def mark_def)
  have c: "new_test class_item = Inr \<lparr>test_name = ''test_a'', test_file = ''TestA'',
      test_maintainers = [], test_labels = [], test_zebrunner_id = PNone\<rparr>"
    by (simp add: new_test_def class_item_def split_def subscript_def iter_markers_def)
  have i: "iter_markers class_item ''skip'' =
     [\<lparr>mark_name = ''skip'', mark_args = [], mark_kwargs = [''reason'' \<mapsto> PStr ''env'']\<rparr>]"
    by (simp add: iter_markers_def class_item_def)
  have s: "skip_reason class_item = PNone" by (simp add: skip_reason_def class_item_def)
  have a: "fst (start_test service_with_proxy_on_finish started_world report_skipped ?item) =
      Inl JSONDecodeError \<and>
    test (ctx (snd (start_test service_with_proxy_on_finish started_world report_skipped ?item))) =
     Some \<lparr>test_name = ''test_a'', test_file = ''test_a'', test_maintainers = [],
           test_labels = [], test_zebrunner_id = PInt 2\<rparr>"
    by (simp add: start_test_def start_test_begin_def start_test_skipped_def n authorize_def
        started_world_def running_world_def sample_api_def test_run_is_active_def
        test_is_active_def test_run_id_def test_id_def api_start_test_def api_finish_test_def
        send_def service_with_proxy_on_finish_def service_up_def json_field_def log_response_def
        skipped_def report_skipped_def Let_def set_test_def)
  have b: "filter finish_call (effects (snd (start_test service_up started_world report_skipped class_item))) =
     [Request (PutTest (PInt 1) (PInt 2) \<lparr>ftm_result = ''SKIPPED'', ftm_reason = PNone\<rparr>)]"
    by (simp add: start_test_def start_test_begin_def start_test_skipped_def c s authorize_def
        started_world_def running_world_def sample_api_def test_run_is_active_def
        test_is_active_def test_run_id_def test_id_def api_start_test_def api_finish_test_def
        send_def service_up_def json_field_def log_response_def
        skipped_def report_skipped_def Let_def set_test_def)
  show ?thesis using a i b by simp
qed

section \<open>The run, and sequences of test events\<close>

lemma set_test_run_simps [simp]:
  "effects (set_test_run r w) = effects w"
  "handlers (set_test_run r w) = handlers w"
  "api (set_test_run r w) = api w"
  "test (ctx (set_test_run r w)) = test (ctx w)"
  "test_run (ctx (set_test_run r w)) = r"
  "settings (ctx (set_test_run r w)) = settings (ctx w)"
  by (simp_all add: set_test_run_def)

lemma add_handler_simps [simp]:
  "effects (add_handler h w) = effects w"
  "ctx (add_handler h w) = ctx w"
  "api (add_handler h w) = api w"
  by (simp_all add: add_handler_def)

lemma api_start_test_run_ctx: "ctx (snd (api_start_test_run e key model w)) = ctx w"
  by (simp add: api_start_test_run_def send_def logged_def log_response_def
      split: answer.splits body.splits sum.splits)

lemma api_start_test_run_failed:
  "failed (net e (effects w) (PostTestRun key model)) \<Longrightarrow>
   fst (api_start_test_run e key model w) = Inr v \<Longrightarrow> v = PNone"
  by (simp add: api_start_test_run_def send_def failed_def log_response_def
      split: answer.splits body.splits if_splits)

lemma start_test_run_frame:
  "test (ctx (snd (start_test_run e w))) = test (ctx w) \<and>
   ((fst (authorize e w) = Inr () \<or> \<not> test_run_is_active (ctx w)) \<and>
    (\<forall>key model. failed (net e (effects (snd (authorize e w))) (PostTestRun key model))) \<longrightarrow>
      \<not> test_run_is_active (ctx (snd (start_test_run e w))))"
proof -
  obtain r wa where a: "authorize e w = (r, wa)" by (cases "authorize e w")
  have ca: "ctx wa = ctx w" using authorize_ctx [of e w] a by simp
  show ?thesis
  proof (cases r)
    case (Inl err)
    then show ?thesis by (simp add: start_test_run_def a ca)
  next
    case (Inr u)
    let ?s = "settings (ctx w)"
    let ?r = "\<lparr>run_name = display_name (run ?s), run_environment = environment (run ?s),
                  run_build = build (run ?s), run_zebrunner_id = PNone\<rparr>"
    let ?model = "\<lparr>strm_name = run_name ?r, strm_framework = ''pytest'',
                  strm_config = Some \<lparr>cfg_environment = run_environment ?r, cfg_build = run_build ?r\<rparr>,
                  strm_milestone = (case milestone ?s of
                    Some ms \<Rightarrow> Some \<lparr>ms_id = milestone_id ms, ms_name = milestone_name ms\<rparr>
                  | None \<Rightarrow> None), strm_ci_context = resolve_ci_context e,
                  strm_notification_targets = get_notification_configurations ?s\<rparr>"
    let ?c = "api_start_test_run e (project_key ?s) ?model (set_test_run (Some ?r) wa)"
    obtain rv wb where b: "?c = (rv, wb)" by (cases ?c)
    have cb: "ctx wb = ctx (set_test_run (Some ?r) wa)"
      using api_start_test_run_ctx [of e "project_key ?s" ?model "set_test_run (Some ?r) wa"] b
      by simp
    have f: "v = PNone"
      if "\<forall>key model. failed (net e (effects (snd (authorize e w))) (PostTestRun key model))"
        and "rv = Inr v" for v
      using api_start_test_run_failed [of e "set_test_run (Some ?r) wa" "project_key ?s" ?model v]
        that b a
      by simp
    have r: "start_test_run e w =
        (case rv of
           Inl err \<Rightarrow> (Inl err, wb)
         | Inr v \<Rightarrow>
             (Inr (), if send_logs ?s
                      then add_handler ZebrunnerHandler (set_test_run (Some (?r\<lparr>run_zebrunner_id := v\<rparr>)) wb)
                      else set_test_run (Some (?r\<lparr>run_zebrunner_id := v\<rparr>)) wb))"
      using b by (simp add: start_test_run_def a Inr ca Let_def then_do_def split: sum.splits)
    show ?thesis
    proof (cases rv)
      case (Inl err)
      then show ?thesis by (simp add: r cb ca test_run_is_active_def)
    next
      case v: (Inr v)
      then show ?thesis using f [of v] by (auto simp: r cb ca test_run_is_active_def)
    qed
  qed
qed

lemma finish_test_frame:
  "test_run (ctx (snd (finish_test e w report item))) = test_run (ctx w) \<and>
   (\<not> test_is_active (ctx w) \<longrightarrow> finish_test e w report item = (Inr (), w))"
proof -
  obtain r wa where a: "authorize e w = (r, wa)" by (cases "authorize e w")
  have ca: "ctx wa = ctx w" using authorize_ctx [of e w] a by simp
  let ?model = "\<lparr>ftm_result = status_value (fst (resolve report item)),
                 ftm_reason = snd (resolve report item)\<rparr>"
  let ?c = "api_finish_test e (test_run_id (ctx w)) (test_id (ctx w)) ?model wa"
  obtain r2 wb where b: "?c = (r2, wb)" by (cases ?c)
  have "ctx wb = ctx wa"
    using api_finish_test_frame [of e "test_run_id (ctx w)" "test_id (ctx w)" ?model wa] b by simp
  then show ?thesis using b
    by (simp add: finish_test_def a ca then_do_def split: sum.splits)
qed

lemma start_test_frame:
  "test_run (ctx (snd (start_test e w report item))) = test_run (ctx w) \<and>
   (\<not> test_run_is_active (ctx w) \<longrightarrow>
      filter test_call (effects (snd (start_test e w report item))) = filter test_call (effects w))"
proof (cases "start_test_begin e w item")
  case (Pair r w1)
  have tr: "test_run (ctx w1) = test_run (ctx w)"
    using start_test_begin_frame [of e w item] Pair by simp
  obtain es where es: "effects w1 = effects w @ es"
      "\<not> test_run_is_active (ctx w) \<longrightarrow> filter test_call es = []"
    using start_test_begin_frame [of e w item] Pair by auto
  show ?thesis
  proof (cases r)
    case (Inl err)
    then show ?thesis using tr es by (simp add: start_test_def Pair)
  next
    case (Inr u)
    have s: "start_test e w report item = start_test_skipped e w1 report item"
      by (simp add: start_test_def Pair Inr)
    have "\<not> test_is_active (ctx w1)" if "\<not> test_run_is_active (ctx w)"
      using that tr test_run_is_active_cong [OF tr] by (simp add: inactive_run_inactive_test)
    then show ?thesis
      using start_test_skipped_frame [of e w1 report item] tr es by (auto simp: s)
  qed
qed

lemma handle_inactive:
  assumes "\<not> test_run_is_active (ctx w)"
  shows "\<not> test_run_is_active (ctx (snd (handle e w ev))) \<and>
     filter test_call (effects (snd (handle e w ev))) = filter test_call (effects w)"
proof (cases ev)
  case (StartTest report item)
  have "test_run (ctx (snd (start_test e w report item))) = test_run (ctx w)"
    using start_test_frame [of e w report item] by simp
  from test_run_is_active_cong [OF this] show ?thesis
    using assms start_test_frame [of e w report item] by (simp add: StartTest)
next
  case (FinishTest report item)
  then show ?thesis
    using assms finish_test_frame [of e w report item]
    by (simp add: inactive_run_inactive_test)
qed

lemma dispatch_inactive:
  "\<not> test_run_is_active (ctx w) \<Longrightarrow>
   filter test_call (effects (dispatch e w evs)) = filter test_call (effects w)"
proof (induction evs arbitrary: w)
  case Nil
  then show ?case by (simp add: dispatch_def)
next
  case (Cons ev evs)
  have "dispatch e w (ev # evs) = dispatch e (snd (handle e w ev)) evs"
    by (simp add: dispatch_def)
  then show ?case
    using Cons.IH [of "snd (handle e w ev)"] handle_inactive [OF Cons.prems, of e ev] by simp
qed

lemma dispatch_snoc: "dispatch e w (evs @ [ev]) = snd (handle e (dispatch e w evs) ev)"
  by (simp add: dispatch_def)

text \<open>
  Claim C2, as amended. A fresh context holds no Test and \<open>start_test_run\<close> leaves the
  slot as it is, so the slot is empty before the first \<open>start_test\<close>. After any sequence
  of per-test events, a \<open>finish_test\<close> that finds the Test active and returns leaves the
  slot empty; it returns when \<open>authorize\<close> returns and the answer to the finish-test
  request is not unreadable, that is, when no response arrives, the status is 200, or
  the body is JSON. A \<open>finish_test\<close> that finds the Test inactive (the Run is inactive,
  or the start-test request failed) changes nothing, so the slot keeps the Test that
  \<open>start_test\<close> has stored.
\<close>

theorem current_test_slot:
  "test (initial_context s) = None \<and>
   test (ctx (snd (start_test_run e w))) = test (ctx w) \<and>
   (if test_is_active (ctx (dispatch e w evs))
    then (fst (finish_test e (dispatch e w evs) report item) = Inr () \<longrightarrow>
            test (ctx (dispatch e w (evs @ [FinishTest report item]))) = None) \<and>
         (fst (authorize e (dispatch e w evs)) = Inr () \<and>
          (\<forall>model. \<not> unreadable (net e (effects (snd (authorize e (dispatch e w evs))))
             (PutTest (test_run_id (ctx (dispatch e w evs))) (test_id (ctx (dispatch e w evs)))
                model))) \<longrightarrow>
            fst (finish_test e (dispatch e w evs) report item) = Inr ())
    else dispatch e w (evs @ [FinishTest report item]) = dispatch e w evs)"
proof (intro conjI)
  show "test (initial_context s) = None" by (simp add: initial_context_def)
  show "test (ctx (snd (start_test_run e w))) = test (ctx w)"
    using start_test_run_frame [of e w] by simp
  show "if test_is_active (ctx (dispatch e w evs))
    then (fst (finish_test e (dispatch e w evs) report item) = Inr () \<longrightarrow>
            test (ctx (dispatch e w (evs @ [FinishTest report item]))) = None) \<and>
         (fst (authorize e (dispatch e w evs)) = Inr () \<and>
          (\<forall>model. \<not> unreadable (net e (effects (snd (authorize e (dispatch e w evs))))
             (PutTest (test_run_id (ctx (dispatch e w evs))) (test_id (ctx (dispatch e w evs)))
                model))) \<longrightarrow>
            fst (finish_test e (dispatch e w evs) report item) = Inr ())
    else dispatch e w (evs @ [FinishTest report item]) = dispatch e w evs"
  proof (cases "test_is_active (ctx (dispatch e w evs))")
    case True
    then show ?thesis
      using finish_test_sends(1,2) [OF True, of e report item]
      by (simp add: dispatch_snoc)
  next
    case False
    then show ?thesis
      using finish_test_frame [of e "dispatch e w evs" report item]
      by (simp add: dispatch_snoc)
  qed
qed

text \<open>
  Claim C2 as stated fails when the start-test request fails: the Run is active, the Test
  gets no identifier, \<open>finish_test\<close> is a no-op and the slot still holds the Test.
\<close>

theorem current_test_slot_counterexample:
  "test (ctx (dispatch service_without_tests (snd (start_test_run service_without_tests fresh_world))
      [StartTest report_passed (sample_item []), FinishTest report_passed (sample_item [])])) =
   Some \<lparr>test_name = ''test_a'', test_file = ''test_a'', test_maintainers = [],
         test_labels = [], test_zebrunner_id = PNone\<rparr>"
proof -
  have n: "new_test (sample_item []) = Inr \<lparr>test_name = ''test_a'', test_file = ''test_a'',
      test_maintainers = [], test_labels = [], test_zebrunner_id = PNone\<rparr>"
    by (simp add: new_test_def sample_item_def split_def subscript_def iter_markers_def)
  show ?thesis
    by (simp add: dispatch_def start_test_run_def start_test_def start_test_begin_def n
        start_test_skipped_def finish_test_def authorize_def auth_def send_def
        api_start_test_run_def api_start_test_def logged_def log_response_def json_field_def
        service_without_tests_def service_up_def fresh_world_def initial_context_def
        sample_settings_def sample_api_def set_test_run_def set_test_def add_handler_def
        test_run_is_active_def test_is_active_def test_run_id_def test_id_def Let_def
        get_notification_configurations_def)
qed

theorem current_test_slot_witness:
  "test (ctx (dispatch service_losing_finish (snd (start_test_run service_losing_finish fresh_world))
      ([StartTest report_passed (sample_item [])] @ [FinishTest report_passed (sample_item [])]))) =
   None"
proof -
  let ?w1 = "dispatch service_losing_finish
      (snd (start_test_run service_losing_finish fresh_world)) [StartTest report_passed (sample_item [])]"
  have n: "new_test (sample_item []) = Inr \<lparr>test_name = ''test_a'', test_file = ''test_a'',
      test_maintainers = [], test_labels = [], test_zebrunner_id = PNone\<rparr>"
    by (simp add: new_test_def sample_item_def split_def subscript_def iter_markers_def)
  have a: "test_is_active (ctx ?w1) \<and> authenticated (api ?w1)"
    by (simp add: dispatch_def start_test_run_def start_test_def start_test_begin_def n
        start_test_skipped_def authorize_def auth_def send_def
        api_start_test_run_def api_start_test_def logged_def log_response_def json_field_def
        service_losing_finish_def service_up_def fresh_world_def initial_context_def
        sample_settings_def sample_api_def set_test_run_def set_test_def add_handler_def
        test_run_is_active_def test_is_active_def test_run_id_def test_id_def Let_def
        get_notification_configurations_def skipped_def report_passed_def)
  then have z: "authorize service_losing_finish ?w1 = (Inr (), ?w1)"
    by (simp add: authorize_authenticated)
  have u: "\<forall>h r t model. \<not> unreadable (net service_losing_finish h (PutTest r t model))"
    by (simp add: unreadable_def service_losing_finish_def)
  show ?thesis
    using current_test_slot [of sample_settings service_losing_finish
        "snd (start_test_run service_losing_finish fresh_world)"
        "[StartTest report_passed (sample_item [])]" report_passed "sample_item []"] a z u
    by simp
qed

text \<open>
  Claim C3. When the start-run request fails (no response, or a status other than 200),
  the Run is inactive after \<open>start_test_run\<close>, and no sequence of \<open>start_test\<close> and
  \<open>finish_test\<close> calls after it sends a start-test or a finish-test request, whatever the
  service does from then on. The request is reached when \<open>authorize\<close> returns; when it
  raises, the same holds if no Run was active before.
\<close>

theorem inactive_run_sends_no_test_calls:
  assumes "fst (authorize e w) = Inr () \<or> \<not> test_run_is_active (ctx w)"
    and "\<forall>key model. failed (net e (effects (snd (authorize e w))) (PostTestRun key model))"
  shows "\<not> test_run_is_active (ctx (snd (start_test_run e w))) \<and>
     filter test_call (effects (dispatch e' (snd (start_test_run e w)) evs)) =
       filter test_call (effects (snd (start_test_run e w)))"
  using assms start_test_run_frame [of e w]
    dispatch_inactive [of "snd (start_test_run e w)" e' evs]
  by simp

theorem inactive_run_sends_no_test_calls_witness:
  "\<not> test_run_is_active (ctx (snd (start_test_run service_down fresh_world))) \<and>
   filter test_call (effects (dispatch service_up (snd (start_test_run service_down fresh_world))
      [StartTest report_skipped (sample_item [mark ''skip'' [''reason'' \<mapsto> PStr ''env'']]),
       StartTest report_passed (sample_item []), FinishTest report_failed (sample_item [])])) = []"
proof -
  have f: "\<forall>key model. failed (net service_down (effects (snd (authorize service_down fresh_world)))
      (PostTestRun key model))"
    by (simp add: failed_def service_down_def)
  have g: "fst (authorize service_down fresh_world) = Inr () \<or>
      \<not> test_run_is_active (ctx fresh_world)"
    by (simp add: fresh_world_def initial_context_def test_run_is_active_def)
  have "filter test_call (effects (snd (start_test_run service_down fresh_world))) = []"
    by (simp add: start_test_run_def authorize_def auth_def send_def
        api_start_test_run_def logged_def log_response_def
        service_down_def service_up_def fresh_world_def initial_context_def
        sample_settings_def sample_api_def set_test_run_def add_handler_def Let_def
        get_notification_configurations_def)
  then show ?thesis
    using inactive_run_sends_no_test_calls [OF g f, of service_up
      "[StartTest report_skipped (sample_item [mark ''skip'' [''reason'' \<mapsto> PStr ''env'']]),
       StartTest report_passed (sample_item []), FinishTest report_failed (sample_item [])]"]
    by simp
qed

section \<open>The end of the run, sessions, and transport failures\<close>

lemma api_finish_test_run_frame:
  "ctx (snd (api_finish_test_run e rid w)) = ctx w \<and>
   handlers (snd (api_finish_test_run e rid w)) = handlers w \<and>
   fst (api_finish_test_run e rid w) =
     (if unreadable (net e (effects w) (PutTestRun rid (utcnow e (effects w) - 1000000)))
      then Inl JSONDecodeError else Inr ()) \<and>
   (\<exists>ls. effects (snd (api_finish_test_run e rid w)) =
           effects w @ Request (PutTestRun rid (utcnow e (effects w) - 1000000)) # ls \<and>
         set ls \<subseteq> range Logged)"
  by (simp add: api_finish_test_run_def send_def logged_def log_response_def unreadable_def
      split: answer.splits body.splits)

text \<open>
  What \<open>finish_test_run\<close> does when nothing raises: for a sink whose flush is one effect,
  when \<open>authorize\<close> returns and the answer to the finish-run request is not unreadable, it
  sends the finish-run request with the clock's reading less one second and flushes the
  sink, both only for an active Run, and releases the connections last.
\<close>

lemma finish_test_run_closes:
  assumes "authorize e w = (Inr (), wa)"
    and "\<not> unreadable (net e (effects wa)
           (PutTestRun (test_run_id (ctx w)) (utcnow e (effects wa) - 1000000)))"
  shows "\<exists>mid. finish_test_run flush e w = (Inr (), snd (finish_test_run flush e w)) \<and>
     effects (snd (finish_test_run flush e w)) = effects wa @ mid @ [ClientClosed] \<and>
     (if test_run_is_active (ctx w)
      then \<exists>ls. mid = Request (PutTestRun (test_run_id (ctx w)) (utcnow e (effects wa) - 1000000)) #
                        ls @ (if ZebrunnerHandler \<in> set (handlers w) then [PushLogs] else []) \<and>
                 set ls \<subseteq> range Logged
      else mid = [])"
proof -
  have ca: "ctx wa = ctx w" using authorize_ctx [of e w] assms(1) by simp
  have ha: "handlers wa = handlers w" using authorize_handlers [of e w] assms(1) by simp
  show ?thesis
  proof (cases "test_run_is_active (ctx w)")
    case False
    then show ?thesis by (simp add: finish_test_run_def assms(1) ca api_close_def)
  next
    case True
    let ?c = "api_finish_test_run e (test_run_id (ctx w)) wa"
    obtain wb where b: "?c = (Inr (), wb)"
      using api_finish_test_run_frame [of e "test_run_id (ctx w)" wa] assms(2)
      by (cases ?c) auto
    obtain ls where ls: "effects wb = effects wa @
        Request (PutTestRun (test_run_id (ctx w)) (utcnow e (effects wa) - 1000000)) # ls"
        "set ls \<subseteq> range Logged" and hb: "handlers wb = handlers w"
      using api_finish_test_run_frame [of e "test_run_id (ctx w)" wa] b ha by auto
    have z: "(filter (\<lambda>x. x = ZebrunnerHandler) (handlers w) = []) =
        (ZebrunnerHandler \<notin> set (handlers w))"
      by (auto simp: filter_empty_conv)
    show ?thesis
      using True ls by (simp add: finish_test_run_def assms(1) ca b hb z api_close_def flush_def)
  qed
qed

text \<open>
  Claim C8 fails on the code. With the Run active, an answer to the finish-run request
  with status 502 and a body that is not JSON makes \<open>log_response\<close> raise: the error
  leaves \<open>finish_test_run\<close> after the request, and neither the flush nor the release of
  the connections happens, whatever the sink. With the Run inactive and a client
  without a credential, the same answer to the refresh request makes \<open>authorize\<close> raise,
  and the connections are not released either.
\<close>

theorem finish_test_run_unreleased:
  "test_run_is_active (ctx running_world) \<and>
   fst (finish_test_run push_logs service_behind_proxy running_world) = Inl JSONDecodeError \<and>
   effects (snd (finish_test_run push_logs service_behind_proxy running_world)) =
     [Request (PutTestRun (PInt 1) 4000000)] \<and>
   \<not> test_run_is_active (ctx fresh_world) \<and>
   fst (finish_test_run push_logs service_behind_proxy fresh_world) = Inl JSONDecodeError \<and>
   effects (snd (finish_test_run push_logs service_behind_proxy fresh_world)) =
     [Request (PostAuthRefresh ''refresh'')]"
  by (simp add: finish_test_run_def authorize_def auth_def running_world_def fresh_world_def
      initial_context_def sample_api_def test_run_is_active_def test_run_id_def
      api_finish_test_run_def send_def log_response_def service_behind_proxy_def service_up_def)

text \<open>
  Claim C9 fails on the code. On an inactive Run and a client without a credential, an
  answer to the refresh request with status 502 and a body that is not JSON makes
  \<open>authorize\<close> raise, and the error leaves both session operations, whatever the client's
  session operations are.
\<close>

theorem session_operations_raise:
  "\<not> test_run_is_active (ctx fresh_world) \<and>
   start_test_session client_start service_behind_proxy fresh_world ''s'' Map.empty Map.empty =
     (Inl JSONDecodeError, fresh_world\<lparr>effects := [Request (PostAuthRefresh ''refresh'')]\<rparr>) \<and>
   finish_test_session client_finish service_behind_proxy fresh_world ''z'' [''2''] =
     (Inl JSONDecodeError, fresh_world\<lparr>effects := [Request (PostAuthRefresh ''refresh'')]\<rparr>)"
  by (simp add: start_test_session_def finish_test_session_def authorize_def auth_def
      fresh_world_def initial_context_def sample_api_def test_run_is_active_def
      send_def log_response_def service_behind_proxy_def service_up_def)

text \<open>
  What the session operations do when \<open>authorize\<close> returns: nothing on an inactive Run,
  and the call of the client's operation with the run identifier on an active one.
\<close>

lemma session_operations:
  assumes "authorize e w = (Inr (), wa)"
  shows "if test_run_is_active (ctx w)
    then start_test_session cs e w sid caps dcaps =
           cs (test_run_id (ctx w))
             \<lparr>sts_session_id = sid, sts_desired_capabilities = dcaps, sts_capabilities = caps\<rparr> wa \<and>
         finish_test_session cf e w zid related =
           cf (test_run_id (ctx w)) zid \<lparr>fts_test_ids = related\<rparr> wa
    else start_test_session cs e w sid caps dcaps = (Inr PNone, wa) \<and>
         finish_test_session cf e w zid related = (Inr (), wa)"
proof -
  have ca: "ctx wa = ctx w" using authorize_ctx [of e w] assms by simp
  show ?thesis
    by (simp add: start_test_session_def finish_test_session_def assms ca then_do_return)
qed

text \<open>
  Claim C4 fails for \<open>send_logs\<close> and \<open>send_screenshot\<close>: with the service out of reach
  the transport error leaves the client. The lemma after it shows the operations that
  have the \<open>try\<close>: they log a warning and return nothing.
\<close>

theorem transport_failure_escapes:
  "fst (api_send_logs service_down (PInt 1) [] running_world) = Inl RequestError \<and>
   fst (api_send_screenshot (service_down\<lparr>read_file := [''shot.png'' \<mapsto> ''PNG'']\<rparr>)
          (PInt 1) (PInt 2) ''shot.png'' running_world) = Inl RequestError"
  by (simp add: api_send_logs_def api_send_screenshot_def send_def service_down_def service_up_def)

lemma transport_failure_caught:
  assumes "\<And>req. net e (effects w) req = TransportFailure"
  shows "auth e w = (Inr (), if access_token (api w) = [] \<or> service_url (api w) = [] then w else
           w\<lparr>effects := effects w @ [Request (PostAuthRefresh (access_token (api w))), Logged WARNING]\<rparr>)"
    and "api_start_test_run e key model1 w =
           (Inr PNone, w\<lparr>effects := effects w @ [Request (PostTestRun key model1), Logged WARNING]\<rparr>)"
    and "api_start_test e rid model2 w =
           (Inr PNone, w\<lparr>effects := effects w @ [Request (PostTest rid model2), Logged WARNING]\<rparr>)"
    and "api_finish_test e rid tid model3 w =
           (Inr (), w\<lparr>effects := effects w @ [Request (PutTest rid tid model3), Logged WARNING]\<rparr>)"
    and "api_finish_test_run e rid w =
           (Inr (), w\<lparr>effects := effects w @
              [Request (PutTestRun rid (utcnow e (effects w) - 1000000)), Logged WARNING]\<rparr>)"
    and "api_send_logs e rid logs w = (Inl RequestError, w\<lparr>effects := effects w @ [Request (PostLogs rid logs)]\<rparr>)"
  using assms
  by (simp_all add: auth_def api_start_test_run_def api_start_test_def api_finish_test_def
      api_finish_test_run_def api_send_logs_def send_def logged_def)

section \<open>The node id of an item\<close>








end
